theory Spec2Isabelle
  imports Main "HOL-Library.Word" "HOL-Library.Signed_Division"
begin

unbundle bit_operations_syntax

section \<open>Machine integers of the target\<close>

text \<open>
  metriClock.cpp is an Arduino sketch for an AVR board (SoftwareSerial on pins 2 and 3,
  an I2C character display).  There \<open>byte\<close> has 8 bits, \<open>int\<close> has 16 bits, and
  \<open>long\<close> and \<open>unsigned long\<close> have 32 bits.  All of them are words; a signed type is
  read with \<open>sint\<close> and compared with \<open>\<le>s\<close> and \<open><s\<close>.  Arithmetic wraps around, as
  avr-gcc compiles it.  The width of \<open>int\<close> matters in one place only, the conversion
  of a tick delta; the conversion is defined for any width, and the sketch uses it at
  16 bits.
\<close>

type_synonym byte = "8 word"
type_synonym cint = "16 word"
type_synonym long = "32 word"
type_synonym ulong = "32 word"

text \<open>
  The operators \<open>/\<close> and \<open>%\<close> of C on \<open>long\<close>: the quotient is truncated towards
  zero and the remainder has the sign of the dividend.
\<close>

definition long_div :: "long \<Rightarrow> long \<Rightarrow> long" where
  "long_div a b = word_of_int (sint a sdiv sint b)"

definition long_mod :: "long \<Rightarrow> long \<Rightarrow> long" where
  "long_mod a b = word_of_int (sint a smod sint b)"

section \<open>The external collaborators\<close>

text \<open>
  The display driver is modelled by the sequence of calls it receives, oldest first.
\<close>

datatype lcd_op =
    LcdInit
  | LcdClear
  | LcdBacklight
  | SetCursor byte byte
  | PrintStr string
  | PrintChar char
  | PrintLong long
  | PrintInt cint

text \<open>
  The GPS parser object \<open>gps\<close>: the validity flag of its time and the fields the sketch
  reads.  Only \<open>gps.encode\<close> changes it, so every function below receives it as an input.
\<close>

record gps_t =
  gps_valid :: bool
  gps_hour :: byte
  gps_minute :: byte
  gps_second :: byte
  gps_day :: byte
  gps_month :: byte
  gps_year :: "16 word"

text \<open>
  The broken-down local instant \<open>hour(local)\<close>, \<open>minute(local)\<close>, \<open>second(local)\<close> for
  \<open>local = ET.toLocal(now())\<close>; the Time and Timezone libraries return each as an
  \<open>int\<close>.
\<close>

record tm =
  tm_hour :: cint
  tm_min :: cint
  tm_sec :: cint

text \<open>The six arguments of a \<open>setTime\<close> call, all of type \<open>int\<close>.\<close>

record timeArgs =
  set_hr :: cint
  set_min :: cint
  set_sec :: cint
  set_day :: cint
  set_month :: cint
  set_year :: cint

section \<open>The globals of the sketch\<close>

text \<open>
  \<open>sysTime\<close> stands for the clock of the Time library: the arguments of the latest
  \<open>setTime\<close> call, \<open>None\<close> before the first one.
\<close>

record state =
  metricTime :: long
  realTime :: long
  nextMetricTick :: ulong
  nextRealTick :: ulong
  lastSync :: ulong
  lcd :: "lcd_op list"
  sysTime :: "timeArgs option"

definition DIGITS :: "byte list" where
  "DIGITS = [8, 9, 11, 12, 14, 15]"

definition DELIMETER :: char where
  "DELIMETER = CHR '':''"

definition DELIMS :: "byte list" where
  "DELIMS = [10, 13]"

definition lcd_call :: "lcd_op \<Rightarrow> state \<Rightarrow> state" where
  "lcd_call c w = w\<lparr>lcd := lcd w @ [c]\<rparr>"

section \<open>updateLCD\<close>

text \<open>The loop \<open>for (byte i = 5; i != 0; i--)\<close> of lines 85 to 89, entered at \<open>i\<close>.\<close>

function metricDigits :: "byte \<Rightarrow> long \<Rightarrow> state \<Rightarrow> state" where
  "metricDigits i metricTimeCopy w =
     (if i \<noteq> 0
      then metricDigits (i - 1) (long_div metricTimeCopy 10)
             (lcd_call (PrintLong (long_mod metricTimeCopy 10))
               (lcd_call (SetCursor (DIGITS ! unat i) 0) w))
      else w)"
  by pat_completeness auto
termination
  by (relation "measure (\<lambda>(i, c, w). unat i)") (auto simp: unat_minus_one unat_gt_0)

declare metricDigits.simps [simp del]

text \<open>\<open>if (v < 10) lcd.print("0"); lcd.print(v);\<close> at the cursor position given.\<close>

definition printTwo :: "byte \<Rightarrow> cint \<Rightarrow> state \<Rightarrow> state" where
  "printTwo col v w =
     (let w1 = lcd_call (SetCursor col 1) w;
          w2 = (if v <s 10 then lcd_call (PrintStr ''0'') w1 else w1)
      in lcd_call (PrintInt v) w2)"

definition updateLCD :: "state \<Rightarrow> state" where
  "updateLCD w =
     (let w1 = metricDigits 5 (metricTime w) w;
          realTimeCopy = realTime w1;
          hours = (ucast (long_div realTimeCopy 3600) :: cint);
          w2 = printTwo (DIGITS ! 0) hours w1;
          realTimeCopy = long_mod realTimeCopy 3600;
          minutes = (ucast (long_div realTimeCopy 60) :: cint);
          w3 = printTwo (DIGITS ! 2) minutes w2;
          realTimeCopy = long_mod realTimeCopy 60;
          seconds = (ucast realTimeCopy :: cint)
      in printTwo (DIGITS ! 4) seconds w3)"

section \<open>Reading the time source\<close>

definition getGPSTime :: "gps_t \<Rightarrow> state \<Rightarrow> state" where
  "getGPSTime gps w =
     (if gps_valid gps = False then w
      else w\<lparr>sysTime := Some \<lparr>set_hr = ucast (gps_hour gps), set_min = ucast (gps_minute gps),
                               set_sec = ucast (gps_second gps), set_day = ucast (gps_day gps),
                               set_month = ucast (gps_month gps), set_year = ucast (gps_year gps)\<rparr>\<rparr>)"

text \<open>
  \<open>setRealTime\<close> and \<open>setMetricTime\<close>: \<open>local\<close> is the local instant the libraries
  return and \<open>ms\<close> is what \<open>millis()\<close> returns at line 134 or 140.
\<close>

definition setRealTime :: "tm \<Rightarrow> ulong \<Rightarrow> state \<Rightarrow> state" where
  "setRealTime local ms w =
     (let w1 = w\<lparr>realTime := 0\<rparr>;
          w2 = w1\<lparr>realTime := realTime w1 + scast (tm_hour local) * 3600\<rparr>;
          w3 = w2\<lparr>realTime := realTime w2 + scast (tm_min local * 60)\<rparr>;
          w4 = w3\<lparr>realTime := realTime w3 + scast (tm_sec local)\<rparr>
      in w4\<lparr>nextRealTick := ms + 1000\<rparr>)"

definition setMetricTime :: "ulong \<Rightarrow> state \<Rightarrow> state" where
  "setMetricTime ms w =
     (let w1 = w\<lparr>metricTime := long_div (realTime w * 1000) 864\<rparr>;
          w2 = w1\<lparr>metricTime := long_mod (metricTime w1) 100000\<rparr>
      in w2\<lparr>nextMetricTick := ms + 864\<rparr>)"

section \<open>Ticks\<close>

definition updateRealTime :: "bool \<Rightarrow> state \<Rightarrow> state" where
  "updateRealTime doUpdate w =
     (let w1 = w\<lparr>realTime := realTime w + 1\<rparr>;
          w2 = w1\<lparr>realTime := long_mod (realTime w1) 86400\<rparr>
      in if doUpdate then updateLCD w2 else w2)"

definition updateMetricTime :: "bool \<Rightarrow> state \<Rightarrow> state" where
  "updateMetricTime doUpdate w =
     (let w1 = w\<lparr>metricTime := metricTime w + 1\<rparr>;
          w2 = w1\<lparr>metricTime := long_mod (metricTime w1) 100000\<rparr>
      in if doUpdate then updateLCD w2 else w2)"

section \<open>Resynchronisation\<close>

definition syncGPSTime :: "gps_t \<Rightarrow> tm \<Rightarrow> ulong \<Rightarrow> ulong \<Rightarrow> state \<Rightarrow> state" where
  "syncGPSTime gps local msReal msMetric w =
     updateLCD (setMetricTime msMetric (setRealTime local msReal (getGPSTime gps w)))"

section \<open>The control loop\<close>

text \<open>
  What one pass of \<open>loop\<close> reads from its environment: the parser object as it is after
  the drain of line 211, the local instant that \<open>setRealTime\<close> would obtain, and the
  value of each \<open>millis()\<close> call, named by the line of the call.
\<close>

record loop_in =
  gps_in :: gps_t
  local_in :: tm
  millis_214 :: ulong
  millis_216 :: ulong
  millis_134 :: ulong
  millis_140 :: ulong
  millis_221 :: ulong
  millis_227 :: ulong

text \<open>
  \<open>int delta = millis() - next;\<close> the difference of two \<open>unsigned long\<close> wraps around
  and is then cut to the width of \<open>int\<close>; \<open>delta >= 0\<close> is the signed comparison.
\<close>

definition tickDelta :: "ulong \<Rightarrow> ulong \<Rightarrow> 'i::len word" where
  "tickDelta ms next = ucast (ms - next)"

definition tickDue :: "'i::len word \<Rightarrow> bool" where
  "tickDue delta = (0 \<le>s delta)"

text \<open>Lines 214 to 218.\<close>

definition resyncGate :: "loop_in \<Rightarrow> state \<Rightarrow> state" where
  "resyncGate inp w =
     (let syncDelta = (millis_214 inp - lastSync w :: long)
      in if long_mod (metricTime w) 125 = 0 \<and> 5000 <s syncDelta
         then syncGPSTime (gps_in inp) (local_in inp) (millis_134 inp) (millis_140 inp)
                (w\<lparr>lastSync := millis_216 inp\<rparr>)
         else w)"

text \<open>Lines 221 to 225.\<close>

definition metricTick :: "ulong \<Rightarrow> state \<Rightarrow> state" where
  "metricTick ms w =
     (let metricTickDelta = (tickDelta ms (nextMetricTick w) :: cint)
      in if tickDue metricTickDelta
         then updateMetricTime True (w\<lparr>nextMetricTick := nextMetricTick w + 864\<rparr>)
         else w)"

text \<open>Lines 227 to 232.\<close>

definition realTick :: "ulong \<Rightarrow> state \<Rightarrow> state" where
  "realTick ms w =
     (let realTickDelta = (tickDelta ms (nextRealTick w) :: cint)
      in if tickDue realTickDelta
         then updateRealTime True (w\<lparr>nextRealTick := nextRealTick w + 1000\<rparr>)
         else w)"

definition loop :: "loop_in \<Rightarrow> state \<Rightarrow> state" where
  "loop inp w = realTick (millis_227 inp) (metricTick (millis_221 inp) (resyncGate inp w))"

section \<open>Start-up\<close>

text \<open>The globals as they are initialised at lines 75 to 79, the display untouched.\<close>

definition initial :: state where
  "initial = \<lparr>metricTime = 0, realTime = 0, nextMetricTick = 864, nextRealTick = 1000,
              lastSync = 0, lcd = [], sysTime = None\<rparr>"

text \<open>A parser object that has not decoded anything yet: no valid time, every field 0.\<close>

definition gps_init :: gps_t where
  "gps_init = \<lparr>gps_valid = False, gps_hour = 0, gps_minute = 0, gps_second = 0,
               gps_day = 0, gps_month = 0, gps_year = 0\<rparr>"

text \<open>
  The wait of lines 182 to 187.  \<open>feed\<close> lists the parser object after each drain of
  line 184, in order; the loop has no other exit, so a feed that ends while the condition
  still holds gives \<open>None\<close>: the sketch is still waiting.  Otherwise the result is the
  parser object the loop left with and the rest of the feed.
\<close>

function acquire :: "gps_t \<Rightarrow> bool \<Rightarrow> gps_t list \<Rightarrow> (gps_t \<times> gps_t list) option" where
  "acquire gps isMidnight feed =
     (if gps_valid gps = False \<or> isMidnight
      then (case feed of
              [] \<Rightarrow> None
            | gps' # rest \<Rightarrow> acquire gps' (gps_hour gps' = 0 \<and> gps_minute gps' = 0) rest)
      else Some (gps, feed))"
  by pat_completeness auto
termination
  by (relation "measure (\<lambda>(g, m, feed). length feed)") auto

declare acquire.simps [simp del]

text \<open>The loop \<open>for (byte i = 1; i != 255; i--)\<close> of lines 194 and 201, entered at \<open>i\<close>.\<close>

function delimiters :: "byte \<Rightarrow> byte \<Rightarrow> state \<Rightarrow> state" where
  "delimiters i row w =
     (if i \<noteq> 255
      then delimiters (i - 1) row
             (lcd_call (PrintChar DELIMETER) (lcd_call (SetCursor (DELIMS ! unat i) row) w))
      else w)"
  by pat_completeness auto
termination
proof (relation "measure (\<lambda>(i, row, w). unat (i + 1))")
  show "wf (measure (\<lambda>(i :: byte, row :: byte, w :: state). unat (i + 1)))"
    by simp
next
  fix i row :: byte and w :: state
  assume a: "i \<noteq> 255"
  have nz: "i + 1 \<noteq> 0"
  proof
    assume "i + 1 = 0"
    then have "i = - 1" using eq_neg_iff_add_eq_0 [of i 1] by simp
    then have "i = 255" by simp
    with a show False by simp
  qed
  then have "unat (i + 1 - 1) = unat (i + 1) - 1"
    by (rule unat_minus_one)
  moreover have "0 < unat (i + 1)"
    using nz by (simp add: unat_gt_0)
  ultimately have "unat (i - 1 + 1) < unat (i + 1)"
    by simp
  then show "((i - 1, row,
        lcd_call (PrintChar DELIMETER) (lcd_call (SetCursor (DELIMS ! unat i) row) w)),
        (i, row, w)) \<in> measure (\<lambda>(i, row, w). unat (i + 1))"
    by simp
qed

declare delimiters.simps [simp del]

text \<open>
  \<open>setup\<close>, from the globals \<open>w\<close> and the parser object \<open>gps0\<close> as constructed.  The
  serial port is opened first (line 167); it has no part in the state.
\<close>

definition setup_sketch :: "gps_t \<Rightarrow> gps_t list \<Rightarrow> tm \<Rightarrow> ulong \<Rightarrow> ulong \<Rightarrow> state \<Rightarrow> state option" where
  "setup_sketch gps0 feed local msReal msMetric w =
     (let w1 = lcd_call LcdBacklight (lcd_call LcdClear (lcd_call LcdInit w));
          w2 = lcd_call (PrintStr ''Acquiring Time'') (lcd_call (SetCursor 1 0) w1);
          w3 = lcd_call (PrintStr ''Please Wait'') (lcd_call (SetCursor 2 0) w2)
      in case acquire gps0 True feed of
           None \<Rightarrow> None
         | Some (gps, rest) \<Rightarrow>
             (let w4 = lcd_call LcdClear w3;
                  w5 = lcd_call (PrintStr ''Metric:'') (lcd_call (SetCursor 0 0) w4);
                  w6 = delimiters 1 0 w5;
                  w7 = lcd_call (PrintStr ''Actual:'') (lcd_call (SetCursor 0 1) w6);
                  w8 = delimiters 1 1 w7
              in Some (syncGPSTime gps local msReal msMetric w8)))"

section \<open>Notions used to state the properties\<close>

text \<open>The calls the display received after the state \<open>w\<close>, up to the later state \<open>w'\<close>.\<close>

definition emitted :: "state \<Rightarrow> state \<Rightarrow> lcd_op list" where
  "emitted w w' = drop (length (lcd w)) (lcd w')"

text \<open>Cursor positioning and character output, as opposed to the other display calls.\<close>

fun is_write :: "lcd_op \<Rightarrow> bool" where
  "is_write (SetCursor c r) = True"
| "is_write (PrintStr s) = True"
| "is_write (PrintChar c) = True"
| "is_write (PrintLong v) = True"
| "is_write (PrintInt v) = True"
| "is_write LcdInit = False"
| "is_write LcdClear = False"
| "is_write LcdBacklight = False"

text \<open>Both counters within their day: seconds below 86400, metric units below 100000.\<close>

definition inRange :: "state \<Rightarrow> bool" where
  "inRange w = (0 \<le>s realTime w \<and> realTime w <s 86400 \<and>
                0 \<le>s metricTime w \<and> metricTime w <s 100000)"

text \<open>A local instant of the day: hour 0 to 23, minute and second 0 to 59.\<close>

definition validLocal :: "tm \<Rightarrow> bool" where
  "validLocal local = (0 \<le>s tm_hour local \<and> tm_hour local \<le>s 23 \<and>
                       0 \<le>s tm_min local \<and> tm_min local \<le>s 59 \<and>
                       0 \<le>s tm_sec local \<and> tm_sec local \<le>s 59)"

text \<open>
  A run of tick checks of one clock, one per \<open>millis()\<close> sample of the list, is
  \<open>fold metricTick\<close> or \<open>fold realTick\<close>.  The predicates below say that every check
  of such a run finds its tick due.
\<close>

fun metricDueAll :: "ulong list \<Rightarrow> state \<Rightarrow> bool" where
  "metricDueAll [] w = True"
| "metricDueAll (ms # mss) w =
     (tickDue (tickDelta ms (nextMetricTick w) :: cint) \<and> metricDueAll mss (metricTick ms w))"

fun realDueAll :: "ulong list \<Rightarrow> state \<Rightarrow> bool" where
  "realDueAll [] w = True"
| "realDueAll (ms # mss) w =
     (tickDue (tickDelta ms (nextRealTick w) :: cint) \<and> realDueAll mss (realTick ms w))"

text \<open>
  The inputs of a pass of \<open>loop\<close> during which the millisecond counter stays at
  \<open>ms\<close>, so that every \<open>millis()\<close> call returns the same value.
\<close>

definition pass_at :: "gps_t \<Rightarrow> tm \<Rightarrow> ulong \<Rightarrow> loop_in" where
  "pass_at gps local ms =
     \<lparr>gps_in = gps, local_in = local, millis_214 = ms, millis_216 = ms, millis_134 = ms,
      millis_140 = ms, millis_221 = ms, millis_227 = ms\<rparr>"

section \<open>Arithmetic of the signed types\<close>

lemma sdiv_nonneg: "0 \<le> (a::int) \<Longrightarrow> 0 < b \<Longrightarrow> a sdiv b = a div b"
  by (simp add: signed_divide_int_def sgn_if)

lemma smod_nonneg: "0 \<le> (a::int) \<Longrightarrow> 0 < b \<Longrightarrow> a smod b = a mod b"
  by (simp add: signed_modulo_int_def sgn_if)

lemma sint_of_int_long:
  "- (2 ^ 31) \<le> k \<Longrightarrow> k < 2 ^ 31 \<Longrightarrow> sint (word_of_int k :: long) = k"
  by (simp add: signed_of_int signed_take_bit_int_eq_self)

lemma sint_long_div:
  assumes "0 \<le> sint a" "0 < sint b"
  shows "sint (long_div a b) = sint a div sint b"
proof -
  have "sint a < 2 ^ 31"
    using sint_lt [of a] by simp
  moreover have "sint a div sint b \<le> sint a"
  proof (cases "sint a = 0")
    case True
    then show ?thesis by simp
  next
    case False
    with assms(1) have "0 < sint a" by simp
    then show ?thesis by (rule int_div_le_self)
  qed
  moreover have "0 \<le> sint a div sint b"
    using assms by (simp add: pos_imp_zdiv_nonneg_iff)
  ultimately have "sint (word_of_int (sint a div sint b) :: long) = sint a div sint b"
    by (intro sint_of_int_long) simp_all
  then show ?thesis
    using assms by (simp add: long_div_def sdiv_nonneg)
qed

lemma sint_long_mod:
  assumes "0 \<le> sint a" "0 < sint b"
  shows "sint (long_mod a b) = sint a mod sint b"
proof -
  have "sint b < 2 ^ 31"
    using sint_lt [of b] by simp
  moreover have "sint a mod sint b < sint b"
    using assms by simp
  moreover have "0 \<le> sint a mod sint b"
    using assms by simp
  ultimately have "sint (word_of_int (sint a mod sint b) :: long) = sint a mod sint b"
    by (intro sint_of_int_long) simp_all
  then show ?thesis
    using assms by (simp add: long_mod_def smod_nonneg)
qed

lemma sint_add_long:
  "- (2 ^ 31) \<le> sint a + sint b \<Longrightarrow> sint a + sint b < 2 ^ 31 \<Longrightarrow>
   sint (a + b :: long) = sint a + sint b"
  by (simp add: sint_word_add signed_take_bit_int_eq_self)

lemma sint_mult_long:
  "- (2 ^ 31) \<le> sint a * sint b \<Longrightarrow> sint a * sint b < 2 ^ 31 \<Longrightarrow>
   sint (a * b :: long) = sint a * sint b"
  by (simp add: sint_word_mult signed_take_bit_int_eq_self)

lemma sint_mult_cint:
  "- (2 ^ 15) \<le> sint a * sint b \<Longrightarrow> sint a * sint b < 2 ^ 15 \<Longrightarrow>
   sint (a * b :: cint) = sint a * sint b"
  by (simp add: sint_word_mult signed_take_bit_int_eq_self)

lemma sint_scast_cint_long: "sint (scast (v :: cint) :: long) = sint v"
proof -
  have "- (2 ^ 15) \<le> sint v" "sint v < 2 ^ 15"
    using sint_ge [of v] sint_lt [of v] by simp_all
  then show ?thesis
    by (simp add: signed_scast_eq signed_take_bit_int_eq_self)
qed

section \<open>What the display refresh writes\<close>

lemma metricDigits_5:
  "metricDigits 5 c w = w\<lparr>lcd := lcd w @
     [SetCursor 15 0, PrintLong (long_mod c 10),
      SetCursor 14 0, PrintLong (long_mod (long_div c 10) 10),
      SetCursor 12 0, PrintLong (long_mod (long_div (long_div c 10) 10) 10),
      SetCursor 11 0, PrintLong (long_mod (long_div (long_div (long_div c 10) 10) 10) 10),
      SetCursor 9 0,
      PrintLong (long_mod (long_div (long_div (long_div (long_div c 10) 10) 10) 10) 10)]\<rparr>"
  by (simp add: metricDigits.simps [of 5] metricDigits.simps [of 4] metricDigits.simps [of 3]
      metricDigits.simps [of 2] metricDigits.simps [of 1] metricDigits.simps [of 0]
      lcd_call_def DIGITS_def)

lemma printTwo_lcd:
  "printTwo col v w = w\<lparr>lcd := lcd w @
     (if v <s 10 then [SetCursor col 1, PrintStr ''0'', PrintInt v]
      else [SetCursor col 1, PrintInt v])\<rparr>"
  by (simp add: printTwo_def lcd_call_def)

lemma updateLCD_frame: "updateLCD w = w\<lparr>lcd := lcd (updateLCD w)\<rparr>"
  by (simp add: updateLCD_def metricDigits_5 printTwo_lcd Let_def)

lemma updateLCD_fields:
  "realTime (updateLCD w) = realTime w"
  "metricTime (updateLCD w) = metricTime w"
  "nextMetricTick (updateLCD w) = nextMetricTick w"
  "nextRealTick (updateLCD w) = nextRealTick w"
  "lastSync (updateLCD w) = lastSync w"
  "sysTime (updateLCD w) = sysTime w"
  by (subst updateLCD_frame, simp)+

section \<open>The counters after a tick and after a resynchronisation\<close>

lemma sint_updateRealTime:
  assumes "0 \<le> sint (realTime w)" "sint (realTime w) < 86400"
  shows "sint (realTime (updateRealTime b w)) = (sint (realTime w) + 1) mod 86400"
proof -
  have s: "sint (realTime w + 1) = sint (realTime w) + 1"
    using assms by (simp add: sint_add_long)
  have "sint (long_mod (realTime w + 1) 86400) = sint (realTime w + 1) mod sint (86400 :: long)"
    using assms s by (intro sint_long_mod) simp_all
  then show ?thesis
    using s by (simp add: updateRealTime_def updateLCD_fields Let_def)
qed

lemma sint_updateMetricTime:
  assumes "0 \<le> sint (metricTime w)" "sint (metricTime w) < 100000"
  shows "sint (metricTime (updateMetricTime b w)) = (sint (metricTime w) + 1) mod 100000"
proof -
  have s: "sint (metricTime w + 1) = sint (metricTime w) + 1"
    using assms by (simp add: sint_add_long)
  have "sint (long_mod (metricTime w + 1) 100000)
      = sint (metricTime w + 1) mod sint (100000 :: long)"
    using assms s by (intro sint_long_mod) simp_all
  then show ?thesis
    using s by (simp add: updateMetricTime_def updateLCD_fields Let_def)
qed

lemma realTime_setRealTime:
  assumes "0 \<le> sint (tm_hour local)" "sint (tm_hour local) \<le> 23"
    and "0 \<le> sint (tm_min local)" "sint (tm_min local) \<le> 59"
    and "0 \<le> sint (tm_sec local)" "sint (tm_sec local) \<le> 59"
  shows "sint (realTime (setRealTime local ms w)) =
         sint (tm_hour local) * 3600 + sint (tm_min local) * 60 + sint (tm_sec local)"
proof -
  let ?h = "sint (tm_hour local)" and ?m = "sint (tm_min local)" and ?s = "sint (tm_sec local)"
  have h: "sint (scast (tm_hour local) * 3600 :: long) = ?h * 3600"
  proof -
    have "sint (scast (tm_hour local) * 3600 :: long)
        = sint (scast (tm_hour local) :: long) * sint (3600 :: long)"
      using assms(1,2) by (intro sint_mult_long) (simp_all add: sint_scast_cint_long)
    then show ?thesis by (simp add: sint_scast_cint_long)
  qed
  have m: "sint (scast (tm_min local * 60) :: long) = ?m * 60"
  proof -
    have "sint (tm_min local * 60) = sint (tm_min local) * sint (60 :: cint)"
      using assms(3,4) by (intro sint_mult_cint) simp_all
    then show ?thesis by (simp add: sint_scast_cint_long)
  qed
  have hm: "sint (scast (tm_hour local) * 3600 + scast (tm_min local * 60) :: long)
      = ?h * 3600 + ?m * 60"
    using assms h m by (simp add: sint_add_long)
  have "sint (scast (tm_hour local) * 3600 + scast (tm_min local * 60)
              + scast (tm_sec local) :: long) = ?h * 3600 + ?m * 60 + ?s"
    using assms hm by (simp add: sint_add_long sint_scast_cint_long)
  then show ?thesis
    by (simp add: setRealTime_def)
qed

lemma metricTime_setMetricTime:
  assumes "0 \<le> sint (realTime w)" "sint (realTime w) < 86400"
  shows "sint (metricTime (setMetricTime ms w)) = (sint (realTime w) * 1000 div 864) mod 100000"
proof -
  have p: "sint (realTime w * 1000) = sint (realTime w) * 1000"
  proof -
    have "sint (realTime w * 1000) = sint (realTime w) * sint (1000 :: long)"
      using assms by (intro sint_mult_long) simp_all
    then show ?thesis by simp
  qed
  have d: "sint (long_div (realTime w * 1000) 864)
      = sint (realTime w * 1000) div sint (864 :: long)"
    using assms p by (intro sint_long_div) simp_all
  have "sint (long_mod (long_div (realTime w * 1000) 864) 100000)
      = sint (long_div (realTime w * 1000) 864) mod sint (100000 :: long)"
    using assms p d by (intro sint_long_mod) (simp_all add: pos_imp_zdiv_nonneg_iff)
  then show ?thesis
    using p d by (simp add: setMetricTime_def)
qed

section \<open>Ticks from midnight\<close>

lemma realTime_ticks:
  "realTime w = 0 \<Longrightarrow> sint (realTime ((updateRealTime b ^^ n) w)) = int (n mod 86400)"
proof (induction n)
  case 0
  then show ?case by simp
next
  case (Suc n)
  let ?w = "(updateRealTime b ^^ n) w"
  have ih: "sint (realTime ?w) = int (n mod 86400)"
    using Suc by simp
  then have "0 \<le> sint (realTime ?w)" "sint (realTime ?w) < 86400"
    by simp_all
  then have "sint (realTime (updateRealTime b ?w)) = (sint (realTime ?w) + 1) mod 86400"
    by (rule sint_updateRealTime)
  also have "\<dots> = int (Suc n mod 86400)"
    unfolding ih by (simp add: zmod_int mod_simps add.commute)
  finally show ?case by simp
qed

lemma metricTime_ticks:
  "metricTime w = 0 \<Longrightarrow> sint (metricTime ((updateMetricTime b ^^ n) w)) = int (n mod 100000)"
proof (induction n)
  case 0
  then show ?case by simp
next
  case (Suc n)
  let ?w = "(updateMetricTime b ^^ n) w"
  have ih: "sint (metricTime ?w) = int (n mod 100000)"
    using Suc by simp
  then have "0 \<le> sint (metricTime ?w)" "sint (metricTime ?w) < 100000"
    by simp_all
  then have "sint (metricTime (updateMetricTime b ?w)) = (sint (metricTime ?w) + 1) mod 100000"
    by (rule sint_updateMetricTime)
  also have "\<dots> = int (Suc n mod 100000)"
    unfolding ih by (simp add: zmod_int mod_simps add.commute)
  finally show ?case by simp
qed

text \<open>
  C6.  For every \<open>n\<close>: from \<open>realTime = 0\<close>, \<open>n\<close> calls of \<open>updateRealTime()\<close> leave
  \<open>realTime = n mod 86400\<close>, and from \<open>metricTime = 0\<close>, \<open>n\<close> calls of
  \<open>updateMetricTime()\<close> leave \<open>metricTime = n mod 100000\<close>.  The calls are those of
  \<open>loop\<close>, with the default argument \<open>doUpdate = true\<close>; the rest of the state is
  arbitrary.
\<close>

theorem ticks_from_zero:
  "sint (realTime ((updateRealTime True ^^ n) (w\<lparr>realTime := 0\<rparr>))) = int (n mod 86400) \<and>
   sint (metricTime ((updateMetricTime True ^^ n) (w\<lparr>metricTime := 0\<rparr>))) = int (n mod 100000)"
  by (simp add: realTime_ticks metricTime_ticks)

section \<open>The display refresh changes the display only\<close>

lemma updateLCD_emitted: "lcd (updateLCD w) = lcd w @ emitted w (updateLCD w)"
  by (simp add: emitted_def updateLCD_def metricDigits_5 printTwo_lcd Let_def)

lemma updateLCD_writes: "list_all is_write (emitted w (updateLCD w))"
  by (simp add: emitted_def updateLCD_def metricDigits_5 printTwo_lcd Let_def)

text \<open>
  C10.  \<open>updateLCD\<close> leaves \<open>realTime\<close>, \<open>metricTime\<close>, \<open>nextMetricTick\<close>,
  \<open>nextRealTick\<close> and \<open>lastSync\<close> as they are (and the clock of the Time library
  too); the display receives further calls after those it already had, and each of them
  positions the cursor or prints.
\<close>

theorem updateLCD_read_only:
  "realTime (updateLCD w) = realTime w \<and> metricTime (updateLCD w) = metricTime w \<and>
   nextMetricTick (updateLCD w) = nextMetricTick w \<and>
   nextRealTick (updateLCD w) = nextRealTick w \<and> lastSync (updateLCD w) = lastSync w \<and>
   sysTime (updateLCD w) = sysTime w \<and>
   lcd (updateLCD w) = lcd w @ emitted w (updateLCD w) \<and>
   list_all is_write (emitted w (updateLCD w))"
  by (simp add: updateLCD_fields updateLCD_emitted [symmetric] updateLCD_writes)

section \<open>The counters set by a resynchronisation\<close>

lemma sync_fields:
  "realTime (syncGPSTime gps local t1 t2 w) = realTime (setRealTime local t1 w)"
  "metricTime (syncGPSTime gps local t1 t2 w) =
     metricTime (setMetricTime t2 (setRealTime local t1 w))"
  by (simp_all add: syncGPSTime_def updateLCD_fields getGPSTime_def setMetricTime_def
      setRealTime_def)

lemma syncGPSTime_counters:
  assumes "validLocal local"
  shows "sint (realTime (syncGPSTime gps local msReal msMetric w)) =
           sint (tm_hour local) * 3600 + sint (tm_min local) * 60 + sint (tm_sec local)"
    and "sint (metricTime (syncGPSTime gps local msReal msMetric w)) =
           ((sint (tm_hour local) * 3600 + sint (tm_min local) * 60 + sint (tm_sec local))
              * 1000 div 864) mod 100000"
proof -
  let ?w1 = "setRealTime local msReal w"
  from assms have r: "0 \<le> sint (tm_hour local)" "sint (tm_hour local) \<le> 23"
     "0 \<le> sint (tm_min local)" "sint (tm_min local) \<le> 59"
     "0 \<le> sint (tm_sec local)" "sint (tm_sec local) \<le> 59"
    by (simp_all add: validLocal_def word_sle_eq)
  then have rt: "sint (realTime ?w1) =
      sint (tm_hour local) * 3600 + sint (tm_min local) * 60 + sint (tm_sec local)"
    by (rule realTime_setRealTime)
  then show "sint (realTime (syncGPSTime gps local msReal msMetric w)) =
           sint (tm_hour local) * 3600 + sint (tm_min local) * 60 + sint (tm_sec local)"
    by (simp add: sync_fields)
  from rt r have "0 \<le> sint (realTime ?w1)" "sint (realTime ?w1) < 86400"
    by simp_all
  then have "sint (metricTime (setMetricTime msMetric ?w1))
      = (sint (realTime ?w1) * 1000 div 864) mod 100000"
    by (rule metricTime_setMetricTime)
  with rt show "sint (metricTime (syncGPSTime gps local msReal msMetric w)) =
           ((sint (tm_hour local) * 3600 + sint (tm_min local) * 60 + sint (tm_sec local))
              * 1000 div 864) mod 100000"
    by (simp add: sync_fields)
qed

text \<open>
  C3.  For a local instant with hour 0 to 23, minute 0 to 59 and second 0 to 59,
  \<open>syncGPSTime\<close> sets \<open>realTime = hour * 3600 + minute * 60 + second\<close> and
  \<open>metricTime = floor (realTime * 1000 / 864) mod 100000\<close>, whatever the state before,
  the parser object and the \<open>millis()\<close> samples.  The instants 23:59:59 and 00:00:00
  follow at the concrete inputs below: 86399 and 99998, 0 and 0.
\<close>

theorem resync_values:
  assumes "validLocal local"
  shows "sint (realTime (syncGPSTime gps local msReal msMetric w)) =
           sint (tm_hour local) * 3600 + sint (tm_min local) * 60 + sint (tm_sec local) \<and>
         sint (metricTime (syncGPSTime gps local msReal msMetric w)) =
           ((sint (tm_hour local) * 3600 + sint (tm_min local) * 60 + sint (tm_sec local))
              * 1000 div 864) mod 100000"
  using syncGPSTime_counters [OF assms] by simp

theorem resync_values_witness:
  "validLocal \<lparr>tm_hour = 23, tm_min = 59, tm_sec = 59\<rparr> \<and>
   sint (realTime (syncGPSTime gps_init \<lparr>tm_hour = 23, tm_min = 59, tm_sec = 59\<rparr>
           5001 5001 initial)) = 86399 \<and>
   sint (metricTime (syncGPSTime gps_init \<lparr>tm_hour = 23, tm_min = 59, tm_sec = 59\<rparr>
           5001 5001 initial)) = 99998 \<and>
   validLocal \<lparr>tm_hour = 0, tm_min = 0, tm_sec = 0\<rparr> \<and>
   sint (realTime (syncGPSTime gps_init \<lparr>tm_hour = 0, tm_min = 0, tm_sec = 0\<rparr>
           5001 5001 initial)) = 0 \<and>
   sint (metricTime (syncGPSTime gps_init \<lparr>tm_hour = 0, tm_min = 0, tm_sec = 0\<rparr>
           5001 5001 initial)) = 0"
proof -
  have v1: "validLocal \<lparr>tm_hour = 23, tm_min = 59, tm_sec = 59\<rparr>"
    by (simp add: validLocal_def word_sle_eq)
  have v2: "validLocal \<lparr>tm_hour = 0, tm_min = 0, tm_sec = 0\<rparr>"
    by (simp add: validLocal_def word_sle_eq)
  show ?thesis
    using v1 v2 resync_values [OF v1, of gps_init 5001 5001 initial]
      resync_values [OF v2, of gps_init 5001 5001 initial]
    by simp
qed

section \<open>The range invariant\<close>

lemma inRange_sint:
  "inRange w \<longleftrightarrow> 0 \<le> sint (realTime w) \<and> sint (realTime w) < 86400 \<and>
                 0 \<le> sint (metricTime w) \<and> sint (metricTime w) < 100000"
  by (simp add: inRange_def word_sle_eq word_sless_alt)

lemma inRange_updateLCD: "inRange (updateLCD w) = inRange w"
  by (simp add: inRange_def updateLCD_fields)

lemma metricTime_updateRealTime: "metricTime (updateRealTime b w) = metricTime w"
  by (simp add: updateRealTime_def updateLCD_fields Let_def)

lemma realTime_updateMetricTime: "realTime (updateMetricTime b w) = realTime w"
  by (simp add: updateMetricTime_def updateLCD_fields Let_def)

lemma inRange_updateRealTime:
  assumes "inRange w"
  shows "inRange (updateRealTime b w)"
proof -
  from assms have "sint (realTime (updateRealTime b w)) = (sint (realTime w) + 1) mod 86400"
    by (intro sint_updateRealTime) (simp_all add: inRange_sint)
  with assms show ?thesis
    by (simp add: inRange_sint metricTime_updateRealTime)
qed

lemma inRange_updateMetricTime:
  assumes "inRange w"
  shows "inRange (updateMetricTime b w)"
proof -
  from assms have "sint (metricTime (updateMetricTime b w)) = (sint (metricTime w) + 1) mod 100000"
    by (intro sint_updateMetricTime) (simp_all add: inRange_sint)
  with assms show ?thesis
    by (simp add: inRange_sint realTime_updateMetricTime)
qed

lemma inRange_syncGPSTime:
  assumes "validLocal local"
  shows "inRange (syncGPSTime gps local msReal msMetric w)"
proof -
  let ?w' = "syncGPSTime gps local msReal msMetric w"
  from assms have r: "0 \<le> sint (tm_hour local)" "sint (tm_hour local) \<le> 23"
     "0 \<le> sint (tm_min local)" "sint (tm_min local) \<le> 59"
     "0 \<le> sint (tm_sec local)" "sint (tm_sec local) \<le> 59"
    by (simp_all add: validLocal_def word_sle_eq)
  have "sint (realTime ?w') =
      sint (tm_hour local) * 3600 + sint (tm_min local) * 60 + sint (tm_sec local)"
    using assms by (rule syncGPSTime_counters)
  with r have rt: "0 \<le> sint (realTime ?w')" "sint (realTime ?w') < 86400"
    by simp_all
  have bound: "0 \<le> x mod 100000" "x mod 100000 < 100000" for x :: int
    by simp_all
  have mt: "0 \<le> sint (metricTime ?w')" "sint (metricTime ?w') < 100000"
    unfolding syncGPSTime_counters(2) [OF assms] by (rule bound)+
  from rt mt show ?thesis
    by (simp only: inRange_sint simp_thms)
qed

lemma inRange_resyncGate:
  "inRange w \<Longrightarrow> validLocal (local_in inp) \<Longrightarrow> inRange (resyncGate inp w)"
  by (simp add: resyncGate_def inRange_syncGPSTime)

lemma inRange_schedule [simp]:
  "inRange (w\<lparr>nextMetricTick := a\<rparr>) = inRange w"
  "inRange (w\<lparr>nextRealTick := a\<rparr>) = inRange w"
  "inRange (w\<lparr>lastSync := a\<rparr>) = inRange w"
  by (simp_all add: inRange_def)

lemma inRange_metricTick: "inRange w \<Longrightarrow> inRange (metricTick ms w)"
  by (simp add: metricTick_def inRange_updateMetricTime)

lemma inRange_realTick: "inRange w \<Longrightarrow> inRange (realTick ms w)"
  by (simp add: realTick_def inRange_updateRealTime)

lemma inRange_loop: "inRange w \<Longrightarrow> validLocal (local_in inp) \<Longrightarrow> inRange (loop inp w)"
  by (simp add: loop_def inRange_realTick inRange_metricTick inRange_resyncGate)

lemma rollover:
  "realTime (updateRealTime b (w\<lparr>realTime := 86399\<rparr>)) = 0"
  "metricTime (updateMetricTime b (w\<lparr>metricTime := 99999\<rparr>)) = 0"
  by (simp_all add: updateRealTime_def updateMetricTime_def updateLCD_fields Let_def long_mod_def)

text \<open>
  C7.  From a state with \<open>realTime\<close> in [0, 86400) and \<open>metricTime\<close> in
  [0, 100000), a tick of either clock, a resynchronisation from a valid local instant and
  a whole pass of \<open>loop\<close> (whose resynchronisation, if it fires, reads a valid local
  instant) end in such a state again: neither counter is negative.  The tick after 86399
  gives \<open>realTime = 0\<close> and the tick after 99999 gives \<open>metricTime = 0\<close>.
\<close>

theorem range_invariant:
  assumes "inRange w" and "validLocal local" and "validLocal (local_in inp)"
  shows "inRange (updateRealTime True w) \<and> inRange (updateMetricTime True w) \<and>
         inRange (syncGPSTime gps local msReal msMetric w) \<and>
         inRange (loop inp w) \<and>
         realTime (updateRealTime True (w\<lparr>realTime := 86399\<rparr>)) = 0 \<and>
         metricTime (updateMetricTime True (w\<lparr>metricTime := 99999\<rparr>)) = 0"
  using assms
  by (simp add: inRange_updateRealTime inRange_updateMetricTime inRange_syncGPSTime
      inRange_loop rollover)


theorem range_invariant_witness:
  "inRange (initial\<lparr>realTime := 86399, metricTime := 99999\<rparr>) \<and>
   validLocal \<lparr>tm_hour = 23, tm_min = 59, tm_sec = 59\<rparr> \<and>
   inRange (updateRealTime True (initial\<lparr>realTime := 86399, metricTime := 99999\<rparr>)) \<and>
   inRange (updateMetricTime True (initial\<lparr>realTime := 86399, metricTime := 99999\<rparr>)) \<and>
   inRange (syncGPSTime gps_init \<lparr>tm_hour = 23, tm_min = 59, tm_sec = 59\<rparr> 5001 5001
              (initial\<lparr>realTime := 86399, metricTime := 99999\<rparr>)) \<and>
   inRange (loop \<lparr>gps_in = gps_init,
                   local_in = \<lparr>tm_hour = 23, tm_min = 59, tm_sec = 59\<rparr>,
                   millis_214 = 5001, millis_216 = 5001, millis_134 = 5001,
                   millis_140 = 5001, millis_221 = 5001, millis_227 = 5001\<rparr>
              (initial\<lparr>realTime := 86399, metricTime := 99999\<rparr>))"
proof -
  have v: "validLocal \<lparr>tm_hour = 23, tm_min = 59, tm_sec = 59\<rparr>"
    by (simp add: validLocal_def word_sle_eq)
  have r: "inRange (initial\<lparr>realTime := 86399, metricTime := 99999\<rparr>)"
    by (simp add: inRange_def initial_def word_sle_eq word_sless_alt)
  have v': "validLocal (local_in \<lparr>gps_in = gps_init,
                   local_in = \<lparr>tm_hour = 23, tm_min = 59, tm_sec = 59\<rparr>,
                   millis_214 = 5001, millis_216 = 5001, millis_134 = 5001,
                   millis_140 = 5001, millis_221 = 5001, millis_227 = 5001\<rparr>)"
    using v by simp
  show ?thesis
    using v r range_invariant [OF r v v', of gps_init 5001 5001]
    by simp
qed

section \<open>The tick schedule\<close>

lemma nextMetricTick_updateMetricTime:
  "nextMetricTick (updateMetricTime b w) = nextMetricTick w"
  by (simp add: updateMetricTime_def updateLCD_fields Let_def)

lemma nextRealTick_updateRealTime:
  "nextRealTick (updateRealTime b w) = nextRealTick w"
  by (simp add: updateRealTime_def updateLCD_fields Let_def)

lemma nextMetricTick_metricTick:
  "nextMetricTick (metricTick ms w) =
     (if tickDue (tickDelta ms (nextMetricTick w) :: cint) then nextMetricTick w + 864
      else nextMetricTick w)"
  by (simp add: metricTick_def nextMetricTick_updateMetricTime)

lemma nextRealTick_realTick:
  "nextRealTick (realTick ms w) =
     (if tickDue (tickDelta ms (nextRealTick w) :: cint) then nextRealTick w + 1000
      else nextRealTick w)"
  by (simp add: realTick_def nextRealTick_updateRealTime)

lemma metric_services:
  "metricDueAll mss w \<Longrightarrow>
   nextMetricTick (fold metricTick mss w) = nextMetricTick w + of_nat (length mss) * 864"
proof (induction mss arbitrary: w)
  case Nil
  then show ?case by simp
next
  case (Cons ms mss)
  then have "nextMetricTick (fold metricTick mss (metricTick ms w))
      = nextMetricTick (metricTick ms w) + of_nat (length mss) * 864"
    by simp
  moreover have "nextMetricTick (metricTick ms w) = nextMetricTick w + 864"
    using Cons.prems by (simp add: nextMetricTick_metricTick)
  ultimately show ?case
    by (simp add: algebra_simps)
qed

lemma real_services:
  "realDueAll mss w \<Longrightarrow>
   nextRealTick (fold realTick mss w) = nextRealTick w + of_nat (length mss) * 1000"
proof (induction mss arbitrary: w)
  case Nil
  then show ?case by simp
next
  case (Cons ms mss)
  then have "nextRealTick (fold realTick mss (realTick ms w))
      = nextRealTick (realTick ms w) + of_nat (length mss) * 1000"
    by simp
  moreover have "nextRealTick (realTick ms w) = nextRealTick w + 1000"
    using Cons.prems by (simp add: nextRealTick_realTick)
  ultimately show ?case
    by (simp add: algebra_simps)
qed

lemma unat_advance:
  "unat (a + of_nat k * c :: ulong) = (unat a + k * unat c) mod 2 ^ 32"
proof -
  have "a + of_nat k * c = (of_nat (unat a + k * unat c) :: ulong)"
    by simp
  then have "unat (a + of_nat k * c) = unat (of_nat (unat a + k * unat c) :: ulong)"
    by (rule arg_cong)
  then show ?thesis
    by (simp only: unat_of_nat) simp
qed

text \<open>
  C4.  The schedule is fixed-rate.  Take any run of tick checks of one clock in which
  every check finds the tick due, whatever the \<open>millis()\<close> samples are otherwise (late
  by some milliseconds or not): after the \<open>k\<close> services of the run the deadline is the
  initial one plus \<open>k\<close> times 864 (metric) or 1000 (real), and it does not depend on
  the samples.  The deadlines are \<open>unsigned long\<close>, so the sum is taken modulo
  \<open>2 ^ 32\<close>, as the counter of \<open>millis()\<close> itself.
\<close>

theorem fixed_rate_schedule:
  "(metricDueAll mss w \<longrightarrow>
      nextMetricTick (fold metricTick mss w) = nextMetricTick w + of_nat (length mss) * 864 \<and>
      unat (nextMetricTick (fold metricTick mss w))
        = (unat (nextMetricTick w) + length mss * 864) mod 2 ^ 32) \<and>
   (realDueAll mss w \<longrightarrow>
      nextRealTick (fold realTick mss w) = nextRealTick w + of_nat (length mss) * 1000 \<and>
      unat (nextRealTick (fold realTick mss w))
        = (unat (nextRealTick w) + length mss * 1000) mod 2 ^ 32)"
proof -
  have "unat (nextMetricTick w + of_nat (length mss) * 864)
      = (unat (nextMetricTick w) + length mss * 864) mod 2 ^ 32"
    using unat_advance [of "nextMetricTick w" "length mss" 864] by simp
  moreover have "unat (nextRealTick w + of_nat (length mss) * 1000)
      = (unat (nextRealTick w) + length mss * 1000) mod 2 ^ 32"
    using unat_advance [of "nextRealTick w" "length mss" 1000] by simp
  ultimately show ?thesis
    by (simp add: metric_services real_services)
qed

text \<open>
  Three services each, 2, 1 and 3 ms late for the metric clock: the deadline ends at
  \<open>864 + 3 * 864\<close>, not at \<open>2595 + 864\<close>.
\<close>

theorem fixed_rate_schedule_witness:
  "metricDueAll [866, 1729, 2595] initial \<and>
   nextMetricTick (fold metricTick [866, 1729, 2595] initial) = 3456 \<and>
   realDueAll [1003, 2000, 3001] initial \<and>
   nextRealTick (fold realTick [1003, 2000, 3001] initial) = 4000"
proof -
  have m: "metricDueAll [866, 1729, 2595] initial"
    by (simp add: nextMetricTick_metricTick initial_def tickDue_def tickDelta_def word_sle_eq)
  have r: "realDueAll [1003, 2000, 3001] initial"
    by (simp add: nextRealTick_realTick initial_def tickDue_def tickDelta_def word_sle_eq)
  have i: "nextMetricTick initial = 864" "nextRealTick initial = 1000"
    by (simp_all add: initial_def)
  show ?thesis
    using m r fixed_rate_schedule [of "[866, 1729, 2595]" initial]
      fixed_rate_schedule [of "[1003, 2000, 3001]" initial]
    by (simp add: i)
qed


section \<open>The due test across the overflow of the counter\<close>

lemma ucast_of_int_down:
  assumes "LENGTH('i::len) \<le> 32"
  shows "(ucast (word_of_int d :: 32 word) :: 'i word) = word_of_int d"
proof -
  have "min LENGTH('i) 32 = LENGTH('i)" using assms by simp
  then show ?thesis
    by (simp add: unsigned_of_int word_of_int_eq_iff)
qed

text \<open>
  C5, as the code has it.  The due test is \<open>tickDue (tickDelta now next)\<close>: the
  difference \<open>now - next\<close> of the two \<open>unsigned long\<close> values wraps around, is
  converted to \<open>int\<close> and compared with 0.  Let the sample be \<open>d\<close> milliseconds
  after the deadline (before it when \<open>d\<close> is negative), the counter having overflowed
  in between or not: \<open>now = next + d\<close> modulo \<open>2 ^ 32\<close>.  When \<open>d\<close> fits the type
  \<open>int\<close>, the test holds exactly when \<open>0 \<le> d\<close>.  The width of \<open>int\<close> is a
  parameter of the statement: 16 bits on the AVR target (\<open>d\<close> from -32768 to 32767),
  at most the 32 bits of the counter.  In operation a tick is a few milliseconds late,
  every resynchronisation setting both deadlines to \<open>millis()\<close> plus the interval.
\<close>

theorem due_across_wraparound:
  assumes "LENGTH('i::len) \<le> 32"
    and "- (2 ^ (LENGTH('i) - 1)) \<le> d" and "d < 2 ^ (LENGTH('i) - 1)"
  shows "tickDue (tickDelta (next + word_of_int d) next :: 'i word) \<longleftrightarrow> 0 \<le> d"
proof -
  have "(tickDelta (next + word_of_int d) next :: 'i word) = word_of_int d"
    using assms(1) by (simp add: tickDelta_def ucast_of_int_down)
  moreover have "sint (word_of_int d :: 'i word) = d"
    using assms(2,3) by (simp add: signed_of_int signed_take_bit_int_eq_self)
  ultimately show ?thesis
    by (simp add: tickDue_def word_sle_eq)
qed

text \<open>
  The deadline 16 ms before the overflow: the sample 4 ms after the overflow is 20 ms
  late and due; seen from the deadline 4, the sample 0xFFFFFFF0 is 20 ms early and not
  due.
\<close>

theorem due_across_wraparound_witness:
  "LENGTH(16) \<le> (32::nat) \<and> - (2 ^ (LENGTH(16) - 1)) \<le> (20::int) \<and>
   (20::int) < 2 ^ (LENGTH(16) - 1) \<and> - (2 ^ (LENGTH(16) - 1)) \<le> (- 20::int) \<and>
   (- 20::int) < 2 ^ (LENGTH(16) - 1) \<and>
   tickDue (tickDelta (4 :: ulong) 0xFFFFFFF0 :: cint) \<and>
   \<not> tickDue (tickDelta (0xFFFFFFF0 :: ulong) 4 :: cint)"
  using due_across_wraparound [where 'i = 16, of 20 "0xFFFFFFF0"]
    due_across_wraparound [where 'i = 16, of "- 20" 4]
  by (simp add: tickDelta_def)

text \<open>
  C5 as stated fails: it speaks of every difference that is small against the period
  \<open>2 ^ 32\<close> of the counter, and 40000 ms is such a difference.  With the deadline 864
  of the initial globals and the sample 40864, the tick is 40000 ms late; the \<open>int\<close>
  of line 221 is -25536, the test of line 222 fails and \<open>loop\<close> does not tick.
\<close>

theorem due_late_counterexample:
  "nextMetricTick initial = 864 \<and> unat (40864 - nextMetricTick initial) = 40000 \<and>
   \<not> tickDue (tickDelta 40864 (nextMetricTick initial) :: cint) \<and>
   metricTick 40864 initial = initial"
  by (simp add: metricTick_def tickDue_def tickDelta_def initial_def word_sle_eq)

section \<open>The resynchronisation gate\<close>

lemma smod_eq_0_iff: "(a::int) smod 125 = 0 \<longleftrightarrow> a mod 125 = 0"
proof -
  have "a smod 125 = 0 \<longleftrightarrow> \<bar>a\<bar> mod 125 = 0"
    by (auto simp add: smod_int_alt_def sgn_if)
  also have "\<dots> \<longleftrightarrow> 125 dvd \<bar>a\<bar>"
    by (simp add: dvd_eq_mod_eq_0)
  also have "\<dots> \<longleftrightarrow> 125 dvd a"
    by simp
  also have "\<dots> \<longleftrightarrow> a mod 125 = 0"
    by (simp add: dvd_eq_mod_eq_0)
  finally show ?thesis .
qed

lemma long_mod_125: "long_mod a 125 = 0 \<longleftrightarrow> sint a mod 125 = 0"
proof -
  let ?k = "sint a smod 125"
  have "?k \<in> {- \<bar>125\<bar> + 1..\<bar>125\<bar> - 1}"
    by (rule smod_int_range) simp
  then have "- (2 ^ 31) \<le> ?k" "?k < 2 ^ 31"
    by simp_all
  then have k: "sint (word_of_int ?k :: long) = ?k"
    by (rule sint_of_int_long)
  have "long_mod a 125 = 0 \<longleftrightarrow> ?k = 0"
  proof
    assume "long_mod a 125 = 0"
    then have "sint (word_of_int ?k :: long) = 0"
      by (simp add: long_mod_def)
    with k show "?k = 0" by simp
  next
    assume "?k = 0"
    then show "long_mod a 125 = 0"
      by (simp add: long_mod_def)
  qed
  then show ?thesis
    by (simp add: smod_eq_0_iff)
qed

lemma lastSync_kept:
  "lastSync (updateMetricTime b w) = lastSync w"
  "lastSync (updateRealTime b w) = lastSync w"
  "lastSync (metricTick ms w) = lastSync w"
  "lastSync (realTick ms w) = lastSync w"
  "lastSync (syncGPSTime gps local t1 t2 w) = lastSync w"
  by (simp_all add: updateMetricTime_def updateRealTime_def metricTick_def realTick_def
      syncGPSTime_def setMetricTime_def setRealTime_def getGPSTime_def updateLCD_fields Let_def)

lemma resyncGate_eq:
  "resyncGate inp w =
     (if sint (metricTime w) mod 125 = 0 \<and> 5000 < sint (millis_214 inp - lastSync w)
      then syncGPSTime (gps_in inp) (local_in inp) (millis_134 inp) (millis_140 inp)
             (w\<lparr>lastSync := millis_216 inp\<rparr>)
      else w)"
  by (simp add: resyncGate_def long_mod_125 word_sless_alt)

text \<open>
  C1.  In a pass of \<open>loop\<close> the resynchronisation is performed exactly when
  \<open>metricTime mod 125 = 0\<close> and \<open>now - lastSync > 5000\<close>, where \<open>now\<close> is the
  \<open>millis()\<close> value of line 214 and the difference is the wrapping one read as a
  \<open>long\<close>.  When both hold, lines 216 and 217 run: \<open>lastSync\<close> becomes the
  \<open>millis()\<close> value of line 216, which is the current counter value at that moment,
  and \<open>syncGPSTime\<close> is performed; \<open>lastSync\<close> still has that value at the end of
  the pass.  When one of them fails, lines 214 to 218 leave the whole state as it is (no
  resynchronisation, no display call) and \<open>lastSync\<close> is unchanged at the end of the
  pass.
\<close>

theorem resync_gate:
  "(sint (metricTime w) mod 125 = 0 \<and> 5000 < sint (millis_214 inp - lastSync w) \<longrightarrow>
      resyncGate inp w =
        syncGPSTime (gps_in inp) (local_in inp) (millis_134 inp) (millis_140 inp)
          (w\<lparr>lastSync := millis_216 inp\<rparr>) \<and>
      lastSync (resyncGate inp w) = millis_216 inp \<and>
      lastSync (loop inp w) = millis_216 inp) \<and>
   (\<not> (sint (metricTime w) mod 125 = 0 \<and> 5000 < sint (millis_214 inp - lastSync w)) \<longrightarrow>
      resyncGate inp w = w \<and> lastSync (loop inp w) = lastSync w)"
  by (simp add: resyncGate_eq loop_def lastSync_kept)

text \<open>
  The examples of the specification: 125 units and 5001 ms fire; 124 units do not; 125
  units and 4000 ms do not.
\<close>

theorem resync_gate_witness:
  "(sint (metricTime (initial\<lparr>metricTime := 125\<rparr>)) mod 125 = 0 \<and>
    5000 < sint (millis_214 ((pass_at gps_init \<lparr>tm_hour = 0, tm_min = 3, tm_sec = 0\<rparr> 5001)
                               \<lparr>millis_216 := 5002\<rparr>)
                 - lastSync (initial\<lparr>metricTime := 125\<rparr>))) \<and>
   lastSync (loop ((pass_at gps_init \<lparr>tm_hour = 0, tm_min = 3, tm_sec = 0\<rparr> 5001)
                     \<lparr>millis_216 := 5002\<rparr>)
               (initial\<lparr>metricTime := 125\<rparr>)) = 5002 \<and>
   resyncGate (pass_at gps_init \<lparr>tm_hour = 0, tm_min = 3, tm_sec = 0\<rparr> 5001)
     (initial\<lparr>metricTime := 124\<rparr>) = initial\<lparr>metricTime := 124\<rparr> \<and>
   resyncGate (pass_at gps_init \<lparr>tm_hour = 0, tm_min = 3, tm_sec = 0\<rparr> 4000)
     (initial\<lparr>metricTime := 125\<rparr>) = initial\<lparr>metricTime := 125\<rparr>"
  using
    resync_gate [of "initial\<lparr>metricTime := 125\<rparr>"
      "(pass_at gps_init \<lparr>tm_hour = 0, tm_min = 3, tm_sec = 0\<rparr> 5001)\<lparr>millis_216 := 5002\<rparr>"]
    resync_gate [of "initial\<lparr>metricTime := 124\<rparr>"
      "pass_at gps_init \<lparr>tm_hour = 0, tm_min = 3, tm_sec = 0\<rparr> 5001"]
    resync_gate [of "initial\<lparr>metricTime := 125\<rparr>"
      "pass_at gps_init \<lparr>tm_hour = 0, tm_min = 3, tm_sec = 0\<rparr> 4000"]
  by (simp add: initial_def pass_at_def)

section \<open>An invalid time source\<close>

lemma sysTime_kept:
  "sysTime (updateMetricTime b w) = sysTime w"
  "sysTime (updateRealTime b w) = sysTime w"
  "sysTime (metricTick ms w) = sysTime w"
  "sysTime (realTick ms w) = sysTime w"
  "sysTime (setRealTime local t1 w) = sysTime w"
  "sysTime (setMetricTime t2 w) = sysTime w"
  by (simp_all add: updateMetricTime_def updateRealTime_def metricTick_def realTick_def
      setMetricTime_def setRealTime_def updateLCD_fields Let_def)

lemmas refresh_unfold = updateLCD_def metricDigits_5 printTwo_lcd Let_def

lemma check_sysTime_commute:
  "metricTick ms (w\<lparr>sysTime := x\<rparr>) = (metricTick ms w)\<lparr>sysTime := x\<rparr>"
  "realTick ms (w\<lparr>sysTime := x\<rparr>) = (realTick ms w)\<lparr>sysTime := x\<rparr>"
  by (simp_all add: metricTick_def realTick_def updateMetricTime_def updateRealTime_def
      refresh_unfold)

lemma syncGPSTime_any_gps:
  "syncGPSTime gps local t1 t2 w
     = (updateLCD (setMetricTime t2 (setRealTime local t1 w)))
         \<lparr>sysTime := sysTime (getGPSTime gps w)\<rparr>"
  by (simp add: syncGPSTime_def getGPSTime_def setMetricTime_def setRealTime_def refresh_unfold)

lemma resyncGate_any_gps:
  "resyncGate (inp\<lparr>gps_in := gps\<rparr>) w
     = (resyncGate (inp\<lparr>gps_in := gps'\<rparr>) w)
         \<lparr>sysTime := sysTime (resyncGate (inp\<lparr>gps_in := gps\<rparr>) w)\<rparr>"
  by (simp add: resyncGate_def syncGPSTime_any_gps [of gps] syncGPSTime_any_gps [of gps'])

lemma loop_any_gps:
  "loop (inp\<lparr>gps_in := gps\<rparr>) w
     = (loop (inp\<lparr>gps_in := gps'\<rparr>) w)\<lparr>sysTime := sysTime (loop (inp\<lparr>gps_in := gps\<rparr>) w)\<rparr>"
proof -
  let ?x = "sysTime (resyncGate (inp\<lparr>gps_in := gps\<rparr>) w)"
  have "loop (inp\<lparr>gps_in := gps\<rparr>) w
      = realTick (millis_227 inp) (metricTick (millis_221 inp)
          ((resyncGate (inp\<lparr>gps_in := gps'\<rparr>) w)\<lparr>sysTime := ?x\<rparr>))"
    unfolding loop_def using resyncGate_any_gps [where inp = inp and gps = gps and w = w and gps' = gps'] by simp
  also have "\<dots> = (loop (inp\<lparr>gps_in := gps'\<rparr>) w)\<lparr>sysTime := ?x\<rparr>"
    by (simp add: loop_def check_sysTime_commute)
  finally have e: "loop (inp\<lparr>gps_in := gps\<rparr>) w = (loop (inp\<lparr>gps_in := gps'\<rparr>) w)\<lparr>sysTime := ?x\<rparr>" .
  then have "sysTime (loop (inp\<lparr>gps_in := gps\<rparr>) w) = ?x"
    by simp
  with e show ?thesis by simp
qed

text \<open>
  C9.  When the validity flag of the parser is false, \<open>getGPSTime\<close> returns at once
  and changes nothing: not the clock of the Time library, not the counters, the deadlines,
  \<open>lastSync\<close> or the display.  \<open>syncGPSTime\<close> then is what its three other steps do,
  and neither it nor a whole pass of \<open>loop\<close> sets the clock of the Time library.
  Apart from that clock, a pass with an invalid time source ends in the state in which it
  ends with any other parser object \<open>gps'\<close>: the ticks do not wait for the receiver.
\<close>

theorem getGPSTime_invalid:
  assumes "gps_valid gps = False"
  shows "getGPSTime gps w = w \<and>
         syncGPSTime gps local msReal msMetric w
           = updateLCD (setMetricTime msMetric (setRealTime local msReal w)) \<and>
         sysTime (syncGPSTime gps local msReal msMetric w) = sysTime w \<and>
         sysTime (loop (inp\<lparr>gps_in := gps\<rparr>) w) = sysTime w \<and>
         loop (inp\<lparr>gps_in := gps\<rparr>) w
           = (loop (inp\<lparr>gps_in := gps'\<rparr>) w)\<lparr>sysTime := sysTime w\<rparr>"
proof -
  have s: "sysTime (loop (inp\<lparr>gps_in := gps\<rparr>) w) = sysTime w"
    using assms
    by (simp add: getGPSTime_def syncGPSTime_def loop_def resyncGate_def sysTime_kept
        updateLCD_fields)
  have "loop (inp\<lparr>gps_in := gps\<rparr>) w
      = (loop (inp\<lparr>gps_in := gps'\<rparr>) w)\<lparr>sysTime := sysTime w\<rparr>"
    using loop_any_gps [where inp = inp and gps = gps and w = w and gps' = gps']
    by (simp only: s)
  with s assms show ?thesis
    by (simp add: getGPSTime_def syncGPSTime_def sysTime_kept updateLCD_fields)
qed

text \<open>
  The parser object that has decoded nothing, against one with the valid time 12:00:00,
  in a pass at 5001 ms from the initial globals (in which the resynchronisation fires).
\<close>

theorem getGPSTime_invalid_witness:
  "gps_valid gps_init = False \<and> getGPSTime gps_init initial = initial \<and>
   sysTime (syncGPSTime gps_init \<lparr>tm_hour = 0, tm_min = 3, tm_sec = 0\<rparr> 5001 5001 initial)
     = None \<and>
   sysTime (loop (pass_at gps_init \<lparr>tm_hour = 0, tm_min = 3, tm_sec = 0\<rparr> 5001) initial)
     = None \<and>
   loop (pass_at gps_init \<lparr>tm_hour = 0, tm_min = 3, tm_sec = 0\<rparr> 5001) initial
     = (loop (pass_at (gps_init\<lparr>gps_valid := True, gps_hour := 12\<rparr>)
                \<lparr>tm_hour = 0, tm_min = 3, tm_sec = 0\<rparr> 5001) initial)
         \<lparr>sysTime := None\<rparr>"
proof -
  have v: "gps_valid gps_init = False"
    by (simp add: gps_init_def)
  have i: "sysTime initial = None"
    by (simp add: initial_def)
  have p: "(pass_at g \<lparr>tm_hour = 0, tm_min = 3, tm_sec = 0\<rparr> 5001)\<lparr>gps_in := g'\<rparr>
      = pass_at g' \<lparr>tm_hour = 0, tm_min = 3, tm_sec = 0\<rparr> 5001" for g g'
    by (simp add: pass_at_def)
  show ?thesis
    using v i getGPSTime_invalid [OF v, of initial "\<lparr>tm_hour = 0, tm_min = 3, tm_sec = 0\<rparr>"
        5001 5001 "pass_at gps_init \<lparr>tm_hour = 0, tm_min = 3, tm_sec = 0\<rparr> 5001"
        "gps_init\<lparr>gps_valid := True, gps_hour := 12\<rparr>"]
    by (simp add: p sysTime_kept updateLCD_fields)
qed

section \<open>The wait for the first fix\<close>

lemma acquire_Nil: "acquire gps True [] = None"
  by (simp add: acquire.simps)

lemma acquire_Cons:
  "acquire gps True (g # rest) =
     (if gps_valid g = False \<or> (gps_hour g = 0 \<and> gps_minute g = 0)
      then acquire g True rest else Some (g, rest))"
proof -
  let ?mid = "gps_hour g = 0 \<and> gps_minute g = 0"
  have step: "acquire gps True (g # rest) = acquire g ?mid rest"
    by (subst acquire.simps) simp
  show ?thesis
  proof (cases "gps_valid g = False \<or> ?mid")
    case True
    then have "acquire g ?mid rest = acquire g True rest"
      by (subst (1 2) acquire.simps) auto
    with True step show ?thesis by simp
  next
    case False
    then have "acquire g ?mid rest = Some (g, rest)"
      by (subst acquire.simps) auto
    with False step show ?thesis by auto
  qed
qed

lemma acquire_dropWhile:
  "acquire gps True feed =
     (case dropWhile (\<lambda>g. gps_valid g = False \<or> (gps_hour g = 0 \<and> gps_minute g = 0)) feed of
        [] \<Rightarrow> None
      | g # rest \<Rightarrow> Some (g, rest))"
  by (induction feed arbitrary: gps) (simp_all add: acquire_Nil acquire_Cons)

lemma setup_sketch_Some:
  assumes "acquire gps True feed = Some (g, rest)"
  shows "\<exists>w'. setup_sketch gps feed local msReal msMetric w
           = Some (syncGPSTime g local msReal msMetric w')"
  using assms by (simp add: setup_sketch_def Let_def) blast

lemma setup_sketch_None:
  "setup_sketch gps feed local msReal msMetric w = None \<longleftrightarrow> acquire gps True feed = None"
  by (simp add: setup_sketch_def Let_def split: option.splits)

text \<open>
  C8, as the code has it.  The wait of \<open>setup\<close> goes on after a drain exactly when the
  validity flag is false or the decoded time has hour 0 and minute 0, whatever its
  second; it ends at the first drain after which the time is valid and its hour or its
  minute is not 0, and \<open>setup\<close> then goes on to the first resynchronisation.  A feed
  with no such parser state leaves the sketch waiting.
\<close>

theorem acquisition_exit:
  "acquire gps True (g # rest) =
     (if gps_valid g = False \<or> (gps_hour g = 0 \<and> gps_minute g = 0)
      then acquire g True rest else Some (g, rest)) \<and>
   acquire gps True feed =
     (case dropWhile (\<lambda>g. gps_valid g = False \<or> (gps_hour g = 0 \<and> gps_minute g = 0)) feed of
        [] \<Rightarrow> None
      | g # rest \<Rightarrow> Some (g, rest)) \<and>
   (setup_sketch gps feed local msReal msMetric w = None \<longleftrightarrow> acquire gps True feed = None) \<and>
   (acquire gps True feed = Some (g', rest') \<longrightarrow>
      (\<exists>w'. setup_sketch gps feed local msReal msMetric w
             = Some (syncGPSTime g' local msReal msMetric w')))"
proof (intro conjI impI)
  show "acquire gps True (g # rest) =
     (if gps_valid g = False \<or> (gps_hour g = 0 \<and> gps_minute g = 0)
      then acquire g True rest else Some (g, rest))"
    by (rule acquire_Cons)
  show "acquire gps True feed =
     (case dropWhile (\<lambda>g. gps_valid g = False \<or> (gps_hour g = 0 \<and> gps_minute g = 0)) feed of
        [] \<Rightarrow> None
      | g # rest \<Rightarrow> Some (g, rest))"
    by (rule acquire_dropWhile)
  show "setup_sketch gps feed local msReal msMetric w = None \<longleftrightarrow> acquire gps True feed = None"
    by (rule setup_sketch_None)
  assume "acquire gps True feed = Some (g', rest')"
  then show "\<exists>w'. setup_sketch gps feed local msReal msMetric w
             = Some (syncGPSTime g' local msReal msMetric w')"
    by (rule setup_sketch_Some)
qed

text \<open>
  A feed of three drains: nothing decoded, then the valid time 00:00:30, then the valid
  time 00:01:00.  The wait ends at the third.
\<close>

theorem acquisition_exit_witness:
  "acquire gps_init True
     [gps_init,
      gps_init\<lparr>gps_valid := True, gps_second := 30\<rparr>,
      gps_init\<lparr>gps_valid := True, gps_minute := 1\<rparr>]
   = Some (gps_init\<lparr>gps_valid := True, gps_minute := 1\<rparr>, [])"
  using
    acquisition_exit [of gps_init gps_init "[]"
      "[gps_init, gps_init\<lparr>gps_valid := True, gps_second := 30\<rparr>,
        gps_init\<lparr>gps_valid := True, gps_minute := 1\<rparr>]"
      "\<lparr>tm_hour = 20, tm_min = 1, tm_sec = 0\<rparr>" 5001 5001 initial
      "gps_init\<lparr>gps_valid := True, gps_minute := 1\<rparr>" "[]"]
  by (simp add: gps_init_def)

text \<open>
  C8 as stated fails: after a drain that leaves the valid time 00:00:30, which is not
  00:00:00, the wait is not over, and \<open>setup\<close> has not reached the resynchronisation.
\<close>

theorem acquisition_midnight_counterexample:
  "acquire gps_init True [gps_init\<lparr>gps_valid := True, gps_second := 30\<rparr>] = None \<and>
   setup_sketch gps_init [gps_init\<lparr>gps_valid := True, gps_second := 30\<rparr>]
     \<lparr>tm_hour = 20, tm_min = 0, tm_sec = 30\<rparr> 5001 5001 initial = None"
  by (simp add: setup_sketch_None acquire_Cons acquire_Nil gps_init_def)

section \<open>The metric digits on the display\<close>

lemma digit_of:
  assumes "0 \<le> sint c"
  shows "long_mod c 10 = word_of_int (sint c mod 10)"
proof -
  have "sint (long_mod c 10) = sint c mod sint (10 :: long)"
    using assms by (intro sint_long_mod) simp_all
  then have "word_of_int (sint (long_mod c 10)) = (word_of_int (sint c mod 10) :: long)"
    by simp
  then show ?thesis
    by simp
qed

lemma drop_digit:
  assumes "0 \<le> sint c"
  shows "sint (long_div c 10) = sint c div 10" "0 \<le> sint (long_div c 10)"
proof -
  show d: "sint (long_div c 10) = sint c div 10"
    using sint_long_div [of c 10] assms by simp
  show "0 \<le> sint (long_div c 10)"
    unfolding d using assms by (simp add: pos_imp_zdiv_nonneg_iff)
qed

lemma metric_digits:
  assumes "0 \<le> sint c"
  shows "long_mod c 10 = word_of_int (sint c mod 10)"
    and "long_mod (long_div c 10) 10 = word_of_int (sint c div 10 mod 10)"
    and "long_mod (long_div (long_div c 10) 10) 10 = word_of_int (sint c div 100 mod 10)"
    and "long_mod (long_div (long_div (long_div c 10) 10) 10) 10
           = word_of_int (sint c div 1000 mod 10)"
    and "long_mod (long_div (long_div (long_div (long_div c 10) 10) 10) 10) 10
           = word_of_int (sint c div 10000 mod 10)"
proof -
  let ?c1 = "long_div c 10"
  let ?c2 = "long_div ?c1 10"
  let ?c3 = "long_div ?c2 10"
  let ?c4 = "long_div ?c3 10"
  have c1: "sint ?c1 = sint c div 10" "0 \<le> sint ?c1"
    using assms by (rule drop_digit)+
  have c2: "sint ?c2 = sint c div 100" "0 \<le> sint ?c2"
    using drop_digit [OF c1(2)] c1(1) by (simp_all add: zdiv_zmult2_eq)
  have c3: "sint ?c3 = sint c div 1000" "0 \<le> sint ?c3"
    using drop_digit [OF c2(2)] c2(1) by (simp_all add: zdiv_zmult2_eq)
  have c4: "sint ?c4 = sint c div 10000" "0 \<le> sint ?c4"
    using drop_digit [OF c3(2)] c3(1) by (simp_all add: zdiv_zmult2_eq)
  show "long_mod c 10 = word_of_int (sint c mod 10)"
    using assms by (rule digit_of)
  show "long_mod ?c1 10 = word_of_int (sint c div 10 mod 10)"
    using digit_of [OF c1(2)] c1(1) by simp
  show "long_mod ?c2 10 = word_of_int (sint c div 100 mod 10)"
    using digit_of [OF c2(2)] c2(1) by simp
  show "long_mod ?c3 10 = word_of_int (sint c div 1000 mod 10)"
    using digit_of [OF c3(2)] c3(1) by simp
  show "long_mod ?c4 10 = word_of_int (sint c div 10000 mod 10)"
    using digit_of [OF c4(2)] c4(1) by simp
qed

lemma emitted_updateLCD:
  "emitted w (updateLCD w) =
     [SetCursor 15 0, PrintLong (long_mod (metricTime w) 10),
      SetCursor 14 0, PrintLong (long_mod (long_div (metricTime w) 10) 10),
      SetCursor 12 0, PrintLong (long_mod (long_div (long_div (metricTime w) 10) 10) 10),
      SetCursor 11 0,
      PrintLong (long_mod (long_div (long_div (long_div (metricTime w) 10) 10) 10) 10),
      SetCursor 9 0,
      PrintLong (long_mod (long_div (long_div (long_div (long_div (metricTime w) 10) 10) 10) 10) 10)]
     @ drop 10 (emitted w (updateLCD w))"
  by (simp add: emitted_def updateLCD_def metricDigits_5 printTwo_lcd Let_def)

lemma no_leading_column: "SetCursor (DIGITS ! 0) 0 \<notin> set (emitted w (updateLCD w))"
  by (simp add: emitted_def updateLCD_def metricDigits_5 printTwo_lcd Let_def DIGITS_def)

lemma take_10_emitted:
  "take 10 (emitted w (updateLCD w)) =
     [SetCursor (DIGITS ! 5) 0, PrintLong (long_mod (metricTime w) 10),
      SetCursor (DIGITS ! 4) 0, PrintLong (long_mod (long_div (metricTime w) 10) 10),
      SetCursor (DIGITS ! 3) 0, PrintLong (long_mod (long_div (long_div (metricTime w) 10) 10) 10),
      SetCursor (DIGITS ! 2) 0,
      PrintLong (long_mod (long_div (long_div (long_div (metricTime w) 10) 10) 10) 10),
      SetCursor (DIGITS ! 1) 0,
      PrintLong (long_mod (long_div (long_div (long_div (long_div (metricTime w) 10) 10) 10) 10) 10)]"
  by (subst emitted_updateLCD) (simp add: DIGITS_def)

text \<open>
  C2, as the code has it.  For \<open>metricTime\<close> in [0, 100000) the refresh first writes
  the five decimal digits of \<open>metricTime\<close> on row 0, least significant first: the units
  at column \<open>DIGITS[5]\<close>, the tens at \<open>DIGITS[4]\<close>, and so on up to the ten-thousands
  at \<open>DIGITS[1]\<close>.  Nothing is written at column \<open>DIGITS[0]\<close> of row 0: the loop
  \<open>for (byte i = 5; i != 0; i--)\<close> leaves at \<open>i = 0\<close>.  Every tick with the default
  argument and every resynchronisation ends with this refresh.
\<close>

theorem refresh_metric_digits:
  assumes "0 \<le> sint (metricTime w)" and "sint (metricTime w) < 100000"
  shows "take 10 (emitted w (updateLCD w)) =
           [SetCursor (DIGITS ! 5) 0, PrintLong (word_of_int (sint (metricTime w) mod 10)),
            SetCursor (DIGITS ! 4) 0, PrintLong (word_of_int (sint (metricTime w) div 10 mod 10)),
            SetCursor (DIGITS ! 3) 0, PrintLong (word_of_int (sint (metricTime w) div 100 mod 10)),
            SetCursor (DIGITS ! 2) 0, PrintLong (word_of_int (sint (metricTime w) div 1000 mod 10)),
            SetCursor (DIGITS ! 1) 0,
            PrintLong (word_of_int (sint (metricTime w) div 10000 mod 10))] \<and>
         SetCursor (DIGITS ! 0) 0 \<notin> set (emitted w (updateLCD w)) \<and>
         updateMetricTime True w = updateLCD (updateMetricTime False w) \<and>
         updateRealTime True w = updateLCD (updateRealTime False w) \<and>
         syncGPSTime gps local msReal msMetric w =
           updateLCD (setMetricTime msMetric (setRealTime local msReal (getGPSTime gps w)))"
  using metric_digits [OF assms(1)]
  by (simp add: take_10_emitted no_leading_column updateMetricTime_def updateRealTime_def
      syncGPSTime_def Let_def)

theorem refresh_metric_digits_witness:
  "0 \<le> sint (metricTime (initial\<lparr>metricTime := 12345\<rparr>)) \<and>
   sint (metricTime (initial\<lparr>metricTime := 12345\<rparr>)) < 100000 \<and>
   take 10 (emitted (initial\<lparr>metricTime := 12345\<rparr>)
              (updateLCD (initial\<lparr>metricTime := 12345\<rparr>))) =
     [SetCursor 15 0, PrintLong 5, SetCursor 14 0, PrintLong 4, SetCursor 12 0, PrintLong 3,
      SetCursor 11 0, PrintLong 2, SetCursor 9 0, PrintLong 1]"
proof -
  have a: "0 \<le> sint (metricTime (initial\<lparr>metricTime := 12345\<rparr>))"
    by simp
  have b: "sint (metricTime (initial\<lparr>metricTime := 12345\<rparr>)) < 100000"
    by simp
  show ?thesis
    using a b refresh_metric_digits [OF a b, of gps_init
        "\<lparr>tm_hour = 0, tm_min = 3, tm_sec = 0\<rparr>" 5001 5001]
    by (simp add: DIGITS_def)
qed

text \<open>
  C2 as stated fails: with \<open>metricTime = 12345\<close> and a display that has received
  nothing before, the refresh never positions the cursor at column \<open>DIGITS[0] = 8\<close> of
  row 0, so no digit is written at the first of the six columns.
\<close>

theorem refresh_six_digits_counterexample:
  "SetCursor (DIGITS ! 0) 0 \<notin> set (lcd (updateLCD (initial\<lparr>metricTime := 12345\<rparr>)))"
  using no_leading_column [of "initial\<lparr>metricTime := 12345\<rparr>"]
  by (simp add: emitted_def initial_def)

end
